theory Spec2Isabelle
  imports Main
begin

section \<open>The JS binding layer: \<open>NativeModuleRegistry\<close>\<close>

text \<open>
  The module \<open>craby-modules\<close> wraps React Native's \<open>TurboModuleRegistry\<close>:
  \<^verbatim>\<open>
  function prepareJNI(moduleName: string) {
    if (Platform.OS !== 'android') {
      return;
    }
    TurboModuleRegistry.get(`__craby${moduleName}_JNI_prepare__`);
  }

  export const NativeModuleRegistry: NativeModuleRegistry = {
    get(moduleName)          { prepareJNI(moduleName); return TurboModuleRegistry.get(moduleName); },
    getEnforcing(moduleName) { prepareJNI(moduleName); return TurboModuleRegistry.getEnforcing(moduleName); },
  };
  \<close>
  \<open>TurboModuleRegistry\<close> and \<open>Platform\<close> belong to React Native, not to this
  repository. The registry is therefore a parameter: two functions that take the looked-up
  name and the host's state \<open>'h\<close> and return the result and the host's next state.
  \<open>get\<close> returns a module or \<open>null\<close>; \<open>getEnforcing\<close> returns a module or throws
  (\<open>Inl\<close> carries what is thrown). \<open>Platform.OS\<close> is a string.
\<close>

record ('h, 'm) TurboModuleRegistry =
  tm_get :: "string \<Rightarrow> 'h \<Rightarrow> 'm option \<times> 'h"
  tm_getEnforcing :: "string \<Rightarrow> 'h \<Rightarrow> (string + 'm) \<times> 'h"

text \<open>
  The template string \<open>`__craby${moduleName}_JNI_prepare__`\<close>.
\<close>

definition JNI_prepare_name :: "string \<Rightarrow> string" where
  "JNI_prepare_name moduleName = ''__craby'' @ moduleName @ ''_JNI_prepare__''"

text \<open>
  Every call the binding layer makes on \<open>TurboModuleRegistry\<close> is recorded, in the order
  in which it is made, with the call site that makes it (line 28 in \<open>prepareJNI\<close>,
  line 39 in \<open>get\<close>, line 43 in \<open>getEnforcing\<close>), the name looked up and the result.
  JavaScript runs the statements of one function body one after the other on one thread, so
  the record of a call is appended when the call returns.
\<close>

datatype 'm lookup =
    PrepareLookup string "'m option"
  | GetLookup string "'m option"
  | GetEnforcingLookup string "string + 'm"

record ('h, 'm) js =
  lookups :: "'m lookup list"
  host :: 'h

definition prepareJNI ::
  "('h, 'm) TurboModuleRegistry \<Rightarrow> string \<Rightarrow> string \<Rightarrow> ('h, 'm) js \<Rightarrow> ('h, 'm) js" where
  "prepareJNI T os moduleName s =
     (if os \<noteq> ''android'' then s
      else (case tm_get T (JNI_prepare_name moduleName) (host s) of
              (r, h) \<Rightarrow>
                \<lparr>lookups = lookups s @ [PrepareLookup (JNI_prepare_name moduleName) r],
                 host = h\<rparr>))"

definition NativeModuleRegistry_get ::
  "('h, 'm) TurboModuleRegistry \<Rightarrow> string \<Rightarrow> string \<Rightarrow> ('h, 'm) js
     \<Rightarrow> 'm option \<times> ('h, 'm) js" where
  "NativeModuleRegistry_get T os moduleName s =
     (let s1 = prepareJNI T os moduleName s in
      case tm_get T moduleName (host s1) of
        (r, h) \<Rightarrow> (r, \<lparr>lookups = lookups s1 @ [GetLookup moduleName r], host = h\<rparr>))"

definition NativeModuleRegistry_getEnforcing ::
  "('h, 'm) TurboModuleRegistry \<Rightarrow> string \<Rightarrow> string \<Rightarrow> ('h, 'm) js
     \<Rightarrow> (string + 'm) \<times> ('h, 'm) js" where
  "NativeModuleRegistry_getEnforcing T os moduleName s =
     (let s1 = prepareJNI T os moduleName s in
      case tm_getEnforcing T moduleName (host s1) of
        (r, h) \<Rightarrow> (r, \<lparr>lookups = lookups s1 @ [GetEnforcingLookup moduleName r], host = h\<rparr>))"

text \<open>
  A sequence of requests made to \<open>NativeModuleRegistry\<close> in one process, in any order.
  Each request is one call; what it returns (or throws) is kept in the record of lookups,
  and the next request runs on the state the previous one left.
\<close>

datatype request = Get string | GetEnforcing string












section \<open>The Android packages\<close>

text \<open>
  The Android package that code generation wrote for the example \<open>craby-test\<close>
  (\<open>CrabyTestPackage.kt\<close>), whose modules are \<open>Calculator\<close> and
  \<open>CrabyTest\<close>:
  \<^verbatim>\<open>
  override fun getModule(name: String, reactContext: ReactApplicationContext): NativeModule? {
    if (name in JNI_PREPARE_MODULE_NAME) {
      nativeSetDataPath(reactContext.filesDir.absolutePath)
    }
    return null
  }

  override fun getReactModuleInfoProvider(): ReactModuleInfoProvider {
    return ReactModuleInfoProvider {
      val moduleInfos: MutableMap<String, ReactModuleInfo> = HashMap()
      JNI_PREPARE_MODULE_NAME.forEach { name ->
        moduleInfos[name] = ReactModuleInfo(name, name, false, false, false, true)
      }
      moduleInfos
    }
  }

  val JNI_PREPARE_MODULE_NAME = setOf("__crabyCalculator_JNI_prepare__", "__crabyCrabyTest_JNI_prepare__")
  \<close>
  The scaffold \<open>{{ pascal_name }}Package\<close> that project initialisation writes, with
  the placeholder name \<open>__crabyUnknown_JNI_prepare__\<close>, stands in until code
  generation replaces it; scaffolding templates are outside the scope of the spec (section
  1) and are not modelled.
  \<open>nativeSetDataPath\<close> is an \<open>external\<close> function of the C++ binding layer and
  returns nothing. The state of the binding layer is kept as the list of data paths it has
  been handed, in order.
\<close>

record ReactApplicationContext =
  filesDir_absolutePath :: string

record ReactModuleInfo =
  info_name :: string
  info_className :: string
  canOverrideExistingModule :: bool
  needsEagerInit :: bool
  isCxxModule :: bool
  isTurboModule :: bool

type_synonym binding_layer = "string list"

definition nativeSetDataPath :: "string \<Rightarrow> binding_layer \<Rightarrow> binding_layer" where
  "nativeSetDataPath dataPath b = b @ [dataPath]"

definition mk_ReactModuleInfo :: "string \<Rightarrow> ReactModuleInfo" where
  "mk_ReactModuleInfo n =
     \<lparr>info_name = n, info_className = n, canOverrideExistingModule = False,
      needsEagerInit = False, isCxxModule = False, isTurboModule = True\<rparr>"

definition CrabyTestPackage_JNI_PREPARE_MODULE_NAME :: "string list" where
  "CrabyTestPackage_JNI_PREPARE_MODULE_NAME =
     [''__crabyCalculator_JNI_prepare__'', ''__crabyCrabyTest_JNI_prepare__'']"

definition CrabyTestPackage_getModule ::
  "string \<Rightarrow> ReactApplicationContext \<Rightarrow> binding_layer \<Rightarrow> 'm option \<times> binding_layer" where
  "CrabyTestPackage_getModule n reactContext b =
     (let b1 = (if n \<in> set CrabyTestPackage_JNI_PREPARE_MODULE_NAME
                then nativeSetDataPath (filesDir_absolutePath reactContext) b else b)
      in (None, b1))"

definition CrabyTestPackage_getReactModuleInfoProvider :: "string \<rightharpoonup> ReactModuleInfo" where
  "CrabyTestPackage_getReactModuleInfoProvider =
     foldl (\<lambda>moduleInfos n. moduleInfos(n \<mapsto> mk_ReactModuleInfo n)) Map.empty
       CrabyTestPackage_JNI_PREPARE_MODULE_NAME"

section \<open>The command line entry point\<close>

text \<open>
  \<^verbatim>\<open>
  cli.parse(
    isCodegenCommand(process.argv)
      ? [process.argv[0], process.argv[1], 'codegen', ...process.argv.slice(2)]
      : process.argv,
  );

  function isCodegenCommand(argv: string[]) {
    const options = argv.slice(2);
    return options.every((option) => option.startsWith('-'));
  }
  \<close>
  Reading a JavaScript array beyond its end gives \<open>undefined\<close>, so the elements of the
  vector handed to the parser are values that may be \<open>undefined\<close>. \<open>slice(2)\<close> of a
  shorter array is empty. The parser (commander) is a parameter.
\<close>

datatype jsval = Str string | Undefined

definition index_js :: "string list \<Rightarrow> nat \<Rightarrow> jsval" where
  "index_js xs i = (if i < length xs then Str (xs ! i) else Undefined)"

definition slice_from :: "nat \<Rightarrow> 'a list \<Rightarrow> 'a list" where
  "slice_from n xs = drop n xs"

fun startsWith :: "string \<Rightarrow> string \<Rightarrow> bool" where
  "startsWith s [] = True"
| "startsWith [] (p # ps) = False"
| "startsWith (c # cs) (p # ps) = (c = p \<and> startsWith cs ps)"

definition isCodegenCommand :: "string list \<Rightarrow> bool" where
  "isCodegenCommand argv =
     (let options = slice_from 2 argv in list_all (\<lambda>option. startsWith option ''-'') options)"

definition cli_argv :: "string list \<Rightarrow> jsval list" where
  "cli_argv argv =
     (if isCodegenCommand argv
      then [index_js argv 0, index_js argv 1, Str ''codegen''] @ map Str (slice_from 2 argv)
      else map Str argv)"

definition run :: "(jsval list \<Rightarrow> 'r) \<Rightarrow> string list \<Rightarrow> 'r" where
  "run parse argv = parse (cli_argv argv)"

section \<open>The error handler of the command line\<close>

text \<open>
  \<^verbatim>\<open>
  export function commonErrorHandler(reason: unknown) {
    if (reason instanceof Error) {
      error(reason.message);
    } else {
      error('Unknown error');
    }
    process.exit(1);
  }

  export function withErrorHandler<T = void>(action: (arg: T) => void) {
    return (arg: T) => {
      try {
        action(arg);
      } catch (reason) {
        commonErrorHandler(reason);
      }
    };
  }

  export const runCodegen = withErrorHandler((overwrite: boolean) =>
    codegen({ projectRoot: process.cwd(), overwrite }));
  \<close>
  JavaScript can throw any value: an \<open>Error\<close> with its message, or something else.
  An action either returns or throws. \<open>error\<close> (the logger of the native bindings) and
  \<open>codegen\<close> are external: the process keeps the messages handed to \<open>error\<close>, in
  order, and \<open>codegen\<close> is a parameter. \<open>process.exit(c)\<close> ends the process with
  code \<open>c\<close>; a Node process that ends without it, and with no exit code set, ends with
  code 0. A throw is what \<open>try\<close>/\<open>catch\<close> sees: what the action throws while
  it runs.
\<close>

datatype thrown = ErrorObject string | OtherValue

record process =
  error_messages :: "string list"
  exited :: "nat option"

definition error :: "string \<Rightarrow> process \<Rightarrow> process" where
  "error msg p = p\<lparr>error_messages := error_messages p @ [msg]\<rparr>"

definition process_exit :: "nat \<Rightarrow> process \<Rightarrow> process" where
  "process_exit c p = p\<lparr>exited := Some c\<rparr>"

definition exit_code :: "process \<Rightarrow> nat" where
  "exit_code p = (case exited p of Some c \<Rightarrow> c | None \<Rightarrow> 0)"

definition commonErrorHandler :: "thrown \<Rightarrow> process \<Rightarrow> process" where
  "commonErrorHandler reason p =
     process_exit 1
       (case reason of
          ErrorObject message \<Rightarrow> error message p
        | OtherValue \<Rightarrow> error ''Unknown error'' p)"

definition withErrorHandler :: "('a \<Rightarrow> thrown + unit) \<Rightarrow> 'a \<Rightarrow> process \<Rightarrow> process" where
  "withErrorHandler action arg p =
     (case action arg of
        Inr u \<Rightarrow> p
      | Inl reason \<Rightarrow> commonErrorHandler reason p)"

record codegen_options =
  projectRoot :: string
  overwrite :: bool

definition runCodegen ::
  "(codegen_options \<Rightarrow> thrown + unit) \<Rightarrow> string \<Rightarrow> bool \<Rightarrow> process \<Rightarrow> process" where
  "runCodegen codegen cwd =
     withErrorHandler (\<lambda>overwrite. codegen \<lparr>projectRoot = cwd, overwrite = overwrite\<rparr>)"

text \<open>
  A \<open>codegen\<close> to run the handler on: it fails with an \<open>Error\<close> when asked not to
  overwrite, throws a value that is no \<open>Error\<close> in the project root \<open>/\<close>, and
  succeeds otherwise.
\<close>

definition sample_codegen :: "codegen_options \<Rightarrow> thrown + unit" where
  "sample_codegen opts =
     (if \<not> overwrite opts then Inl (ErrorObject ''spec error: no module handle'')
      else if projectRoot opts = ''/'' then Inl OtherValue
      else Inr ())"

section \<open>The module resolver of the example project\<close>

text \<open>
  \<^verbatim>\<open>
  const DEFAULT_SINGLETON_MODULES = ['react', 'react-native'];
  const resolvers = new Map();

  export function createResolver(options: CreateResolverOptions): CustomResolver {
    function createResolverImpl(context, platform, rootPath) {
      const singletonModules = options.singletonModules ?? DEFAULT_SINGLETON_MODULES;
      const baseExtensions = context.sourceExts.map((extension) => `.${extension}`);
      let finalExtensions = [...baseExtensions];
      if (context.preferNativePlatform) {
        finalExtensions = [...baseExtensions.map((extension) => `.native${extension}`), ...finalExtensions];
      }
      if (platform) {
        finalExtensions = [...baseExtensions.map((extension) => `.${platform}${extension}`), ...finalExtensions];
      }
      const resolver = new ResolverFactory({ extensions: finalExtensions, ... });
      function resolveSync(resolveDir, request) {
        const resolved = resolver.sync(resolveDir, request);
        if (resolved.path == null) {
          throw new Error(`Failed to resolve ${request} from ${context.originModulePath}`);
        }
        return resolved.path;
      }
      function resolve(context, request) {
        for (const nativeModule of singletonModules) {
          if (request === nativeModule) {
            return { type: 'sourceFile', filePath: resolveSync(rootPath, request) };
          }
        }
        return { type: 'sourceFile', filePath: resolveSync(path.dirname(context.originModulePath), request) };
      }
      return resolve;
    }

    return function resolve(context, request, platform) {
      let resolver = resolvers.get(platform);
      if (resolver == null) {
        resolver = createResolverImpl(context, platform, options.rootPath);
        resolvers.set(platform, resolver);
      }
      return resolver(context, request, platform);
    };
  }
  \<close>
  \<open>ResolverFactory\<close> (oxc-resolver) and \<open>path\<close> (Node) are external: what
  \<open>resolver.sync\<close>, \<open>path.join\<close> and \<open>path.dirname\<close> compute is a parameter
  (\<open>node_env\<close>). The function that \<open>createResolverImpl\<close> returns is a closure;
  it is kept as the values it has captured: the context of the call that built it, the
  singleton modules, the options of its \<open>ResolverFactory\<close> and the root path. The
  platform is a string or \<open>null\<close>; an optional field is a value or \<open>undefined\<close>.
  The module-level \<open>Map\<close> \<open>resolvers\<close> is the state.
\<close>

record CreateResolverOptions =
  rootPath :: string
  singletonModules :: "string list option"

record CustomResolutionContext =
  sourceExts :: "string list"
  originModulePath :: string
  preferNativePlatform :: "bool option"

record ResolverFactoryOptions =
  extensions :: "string list"
  conditionNames :: "string list"
  mainFields :: "string list"
  mainFiles :: "string list"
  modules :: "string list"

record node_env =
  path_join :: "string \<Rightarrow> string \<Rightarrow> string"
  path_dirname :: "string \<Rightarrow> string"
  resolver_sync :: "ResolverFactoryOptions \<Rightarrow> string \<Rightarrow> string \<Rightarrow> string option"

datatype Resolution = SourceFile string | AssetFiles "string list"

record resolver_closure =
  captured_context :: CustomResolutionContext
  captured_singletonModules :: "string list"
  captured_resolver :: ResolverFactoryOptions
  captured_rootPath :: string

type_synonym resolvers = "string option \<rightharpoonup> resolver_closure"

definition DEFAULT_SINGLETON_MODULES :: "string list" where
  "DEFAULT_SINGLETON_MODULES = [''react'', ''react-native'']"

definition createResolverImpl ::
  "node_env \<Rightarrow> CreateResolverOptions \<Rightarrow> CustomResolutionContext \<Rightarrow> string option \<Rightarrow> string
     \<Rightarrow> resolver_closure" where
  "createResolverImpl E options context platform root =
     (let singles = (case singletonModules options of
                       None \<Rightarrow> DEFAULT_SINGLETON_MODULES | Some l \<Rightarrow> l);
          baseExtensions = map (\<lambda>extension. ''.'' @ extension) (sourceExts context);
          finalExtensions0 = baseExtensions;
          finalExtensions1 =
            (if preferNativePlatform context = Some True
             then map (\<lambda>extension. ''.native'' @ extension) baseExtensions @ finalExtensions0
             else finalExtensions0);
          finalExtensions2 =
            (case platform of
               None \<Rightarrow> finalExtensions1
             | Some pl \<Rightarrow>
                 if pl = [] then finalExtensions1
                 else map (\<lambda>extension. ''.'' @ pl @ extension) baseExtensions @ finalExtensions1)
      in \<lparr>captured_context = context,
          captured_singletonModules = singles,
          captured_resolver =
            \<lparr>extensions = finalExtensions2,
             conditionNames = [''react-native'', ''require'', ''node'', ''default''],
             mainFields = [''react-native'', ''browser'', ''main''],
             mainFiles = [''index''],
             modules = [''node_modules'', path_join E root ''src'']\<rparr>,
          captured_rootPath = root\<rparr>)"

definition resolveSync :: "node_env \<Rightarrow> resolver_closure \<Rightarrow> string \<Rightarrow> string \<Rightarrow> string + string" where
  "resolveSync E cl resolveDir request =
     (case resolver_sync E (captured_resolver cl) resolveDir request of
        None \<Rightarrow>
          Inl (''Failed to resolve '' @ request @ '' from ''
                 @ originModulePath (captured_context cl))
      | Some path \<Rightarrow> Inr path)"

definition source_file :: "string + string \<Rightarrow> string + Resolution" where
  "source_file r = (case r of Inl e \<Rightarrow> Inl e | Inr path \<Rightarrow> Inr (SourceFile path))"

fun resolve_loop ::
  "node_env \<Rightarrow> resolver_closure \<Rightarrow> CustomResolutionContext \<Rightarrow> string \<Rightarrow> string list
     \<Rightarrow> string + Resolution" where
  "resolve_loop E cl context request [] =
     source_file (resolveSync E cl (path_dirname E (originModulePath context)) request)"
| "resolve_loop E cl context request (nativeModule # rest) =
     (if request = nativeModule
      then source_file (resolveSync E cl (captured_rootPath cl) request)
      else resolve_loop E cl context request rest)"

definition resolve_inner ::
  "node_env \<Rightarrow> resolver_closure \<Rightarrow> CustomResolutionContext \<Rightarrow> string \<Rightarrow> string + Resolution" where
  "resolve_inner E cl context request =
     resolve_loop E cl context request (captured_singletonModules cl)"

definition resolve ::
  "node_env \<Rightarrow> CreateResolverOptions \<Rightarrow> CustomResolutionContext \<Rightarrow> string \<Rightarrow> string option
     \<Rightarrow> resolvers \<Rightarrow> (string + Resolution) \<times> resolvers" where
  "resolve E options context request platform rs =
     (case rs platform of
        None \<Rightarrow>
          (let resolver = createResolverImpl E options context platform (rootPath options);
               rs1 = rs(platform \<mapsto> resolver)
           in (resolve_inner E resolver context request, rs1))
      | Some resolver \<Rightarrow> (resolve_inner E resolver context request, rs))"

text \<open>
  A run is a sequence of calls of resolver functions; each call names the options of the
  \<open>createResolver\<close> that made the function it calls, since every such function
  works on the same \<open>resolvers\<close>.
\<close>

record resolve_call =
  call_options :: CreateResolverOptions
  call_context :: CustomResolutionContext
  call_request :: string
  call_platform :: "string option"

fun resolve_calls :: "node_env \<Rightarrow> resolve_call list \<Rightarrow> resolvers \<Rightarrow> resolvers" where
  "resolve_calls E [] rs = rs"
| "resolve_calls E (c # cs) rs =
     resolve_calls E cs
       (snd (resolve E (call_options c) (call_context c) (call_request c) (call_platform c) rs))"

text \<open>
  A file system to resolve on: a request resolves to the directory, the request and each
  extension in turn, and the first of these that is one of two files is the answer.
\<close>

definition sample_env :: node_env where
  "sample_env =
     \<lparr>path_join = (\<lambda>a b. a @ ''/'' @ b),
      path_dirname = (\<lambda>p. rev (tl (dropWhile (\<lambda>c. c \<noteq> CHR ''/'') (rev p)))),
      resolver_sync = (\<lambda>opts dir request.
         find (\<lambda>f. f \<in> {''/app/src/util.ts'', ''/app/src/util.ios.js''})
           (map (\<lambda>e. dir @ ''/'' @ request @ e) (extensions opts)))\<rparr>"

section \<open>Default build targets\<close>

datatype platform_family = IOS | Android

text \<open>
  Modelled from the spec: the default target set of the Build Orchestrator, whose code
  (Rust) is not in the source files read here. The spec (4.6) fixes "a fixed, versioned
  set of (OS, CPU architecture) target triples grouped into platform families (two
  families: one with two triples, one with four)"; the triples
  themselves are the ones the repository's build guide lists as built by default
  (\<open>docs/guide/build.md\<close>, lines 22 to 24):
  \<^verbatim>\<open>
  - iOS: aarch64-apple-ios, aarch64-apple-ios-sim
  - Android: aarch64-linux-android, armv7-linux-androideabi, i686-linux-android, x86_64-linux-android
  \<close>
\<close>

definition default_build_targets :: "(platform_family \<times> string list) list" where
  "default_build_targets =
     [(IOS, [''aarch64-apple-ios'', ''aarch64-apple-ios-sim'']),
      (Android, [''aarch64-linux-android'', ''armv7-linux-androideabi'',
                 ''i686-linux-android'', ''x86_64-linux-android''])]"

section \<open>Naming Converter and Type Mapper\<close>

text \<open>
  Modelled from the spec: the letters and digits the Naming Converter tells apart, and its
  boundaries between words. The Naming Converter (Rust) is not in the source files read
  here. The spec (4.3) has identifiers split "on case boundaries and digit/letter
  boundaries": a case boundary is a lower-case letter followed by an upper-case one; a
  digit/letter boundary is a digit followed by a letter or a letter followed by a digit.
\<close>

definition upper_letters :: string where
  "upper_letters = ''ABCDEFGHIJKLMNOPQRSTUVWXYZ''"

definition lower_letters :: string where
  "lower_letters = ''abcdefghijklmnopqrstuvwxyz''"

definition is_upper :: "char \<Rightarrow> bool" where
  "is_upper c = (c \<in> set upper_letters)"

definition is_lower :: "char \<Rightarrow> bool" where
  "is_lower c = (c \<in> set lower_letters)"

definition is_digit :: "char \<Rightarrow> bool" where
  "is_digit c = (c \<in> set ''0123456789'')"

definition to_lower :: "char \<Rightarrow> char" where
  "to_lower c = (case map_of (zip upper_letters lower_letters) c of Some l \<Rightarrow> l | None \<Rightarrow> c)"

definition boundary :: "char \<Rightarrow> char \<Rightarrow> bool" where
  "boundary a b =
     ((is_lower a \<and> is_upper b)
      \<or> (is_digit a \<and> (is_lower b \<or> is_upper b))
      \<or> ((is_lower a \<or> is_upper a) \<and> is_digit b))"

fun split_words :: "string \<Rightarrow> string list" where
  "split_words [] = []"
| "split_words [c] = [[c]]"
| "split_words (a # b # cs) =
     (case split_words (b # cs) of
        [] \<Rightarrow> [[a]]
      | w # ws \<Rightarrow> if boundary a b then [a] # w # ws else (a # w) # ws)"

fun join_with :: "string \<Rightarrow> string list \<Rightarrow> string" where
  "join_with sep [] = []"
| "join_with sep [w] = w"
| "join_with sep (w # v # ws) = w @ sep @ join_with sep (v # ws)"

text \<open>
  Modelled from the spec: \<open>toSnake\<close> of the Naming Converter (4.3): identifiers "are
  assumed to arrive in lower-camel-case and are converted to the generation target's
  convention (e.g., words-joined-by-underscore) by splitting on case boundaries and
  digit/letter boundaries, lower-casing each segment, and joining with the target
  separator".
\<close>

definition toSnake :: "string \<Rightarrow> string" where
  "toSnake ident = join_with ''_'' (map (map to_lower) (split_words ident))"

text \<open>
  Modelled from the spec: the Type Mapper (Rust, not in the source files read here) on the
  primitive kinds, which the spec (4.2) names as supported: number, string, boolean and
  void. Their target types are the Rust types the repository's guide
  (\<open>docs/guide/module-definition.md\<close>) shows in generated code: \<open>Number\<close>,
  \<open>String\<close>, \<open>Boolean\<close> and \<open>Void\<close>. Other forms of types are not
  modelled. A method signature (spec 3) is a name, the parameters with their types and the
  return type; the generated method has the converted names and the mapped types (4.4).
\<close>

datatype primitive_kind = NumberKind | StringKind | BooleanKind | VoidKind

datatype rust_type = RustNumber | RustString | RustBoolean | RustVoid

fun map_primitive :: "primitive_kind \<Rightarrow> rust_type" where
  "map_primitive NumberKind = RustNumber"
| "map_primitive StringKind = RustString"
| "map_primitive BooleanKind = RustBoolean"
| "map_primitive VoidKind = RustVoid"

record MethodSignature =
  method_name :: string
  method_params :: "(string \<times> primitive_kind) list"
  method_return :: primitive_kind

record trait_method =
  fn_name :: string
  fn_params :: "(string \<times> rust_type) list"
  fn_return :: rust_type

definition generate_method :: "MethodSignature \<Rightarrow> trait_method" where
  "generate_method m =
     \<lparr>fn_name = toSnake (method_name m),
      fn_params = map (\<lambda>(n, t). (toSnake n, map_primitive t)) (method_params m),
      fn_return = map_primitive (method_return m)\<rparr>"

section \<open>The shape of the record of lookups on Android\<close>



section \<open>Bootstrap lookup before the real lookup\<close>

lemma bootstrap_name_not_real: "''__craby'' @ m @ ''_JNI_prepare__'' \<noteq> m"
proof
  assume "''__craby'' @ m @ ''_JNI_prepare__'' = m"
  then have "length (''__craby'' @ m @ ''_JNI_prepare__'') = length m"
    by (rule arg_cong)
  then show False by simp
qed

text \<open>
  C1. On Android, one call of \<open>NativeModuleRegistry.get\<close> or
  \<open>NativeModuleRegistry.getEnforcing\<close> for a module name \<open>m\<close> first looks up the
  synthetic bootstrap name \<open>__craby<m>_JNI_prepare__\<close>, which is never the module's own
  name, and then, in the same call, looks up the module's own name:
  the call appends exactly these two lookups to the record, in this order, and the real
  lookup runs on the host state which the bootstrap lookup left. Nothing is scheduled: the
  two lookups are the whole effect of the call. This holds from every state, so also for
  the first call after process start, where no lookup has been made.
\<close>

theorem NativeModuleRegistry_bootstrap_first:
  "NativeModuleRegistry_get T ''android'' m s =
     (case tm_get T (''__craby'' @ m @ ''_JNI_prepare__'') (host s) of
        (r1, h1) \<Rightarrow>
          (case tm_get T m h1 of
             (r2, h2) \<Rightarrow>
               (r2, \<lparr>lookups = lookups s @ [PrepareLookup (''__craby'' @ m @ ''_JNI_prepare__'') r1,
                                              GetLookup m r2],
                     host = h2\<rparr>)))
   \<and> NativeModuleRegistry_getEnforcing T ''android'' m s =
     (case tm_get T (''__craby'' @ m @ ''_JNI_prepare__'') (host s) of
        (r1, h1) \<Rightarrow>
          (case tm_getEnforcing T m h1 of
             (r2, h2) \<Rightarrow>
               (r2, \<lparr>lookups = lookups s @ [PrepareLookup (''__craby'' @ m @ ''_JNI_prepare__'') r1,
                                              GetEnforcingLookup m r2],
                     host = h2\<rparr>)))
   \<and> ''__craby'' @ m @ ''_JNI_prepare__'' \<noteq> m"
  using bootstrap_name_not_real [of m]
  by (simp add: NativeModuleRegistry_get_def NativeModuleRegistry_getEnforcing_def
      prepareJNI_def JNI_prepare_name_def split: prod.split)

section \<open>The bootstrap name and the names the packages register\<close>



section \<open>What \<open>getModule\<close> does\<close>

text \<open>
  C3. \<open>getModule\<close> of the generated package hands the context's
  \<open>filesDir.absolutePath\<close> to the binding layer, by one call of
  \<open>nativeSetDataPath\<close>, exactly when the name it is asked for is a synthetic bootstrap
  name the package registers (\<open>__craby<M>_JNI_prepare__\<close> for \<open>M\<close> one of its
  modules), makes no call for any other name, and returns \<open>null\<close>, for the synthetic
  names as for every other name.
\<close>

theorem getModule_forwards_data_path:
  "CrabyTestPackage_getModule n ctx b =
     (None, if n = ''__crabyCalculator_JNI_prepare__'' \<or> n = ''__crabyCrabyTest_JNI_prepare__''
            then b @ [filesDir_absolutePath ctx] else b)
   \<and> (n \<in> dom CrabyTestPackage_getReactModuleInfoProvider)
       = (n = ''__crabyCalculator_JNI_prepare__'' \<or> n = ''__crabyCrabyTest_JNI_prepare__'')
   \<and> CrabyTestPackage_getModule (''__craby'' @ M @ ''_JNI_prepare__'') ctx b =
       (None, if M = ''Calculator'' \<or> M = ''CrabyTest''
              then b @ [filesDir_absolutePath ctx] else b)"
  by (auto simp add: CrabyTestPackage_getModule_def nativeSetDataPath_def
      CrabyTestPackage_JNI_PREPARE_MODULE_NAME_def
      CrabyTestPackage_getReactModuleInfoProvider_def)

section \<open>Bootstrap lookups before the first resolution\<close>













section \<open>Errors of a command end the process with code 1\<close>

text \<open>
  C5. Whatever an action wrapped in \<open>withErrorHandler\<close> throws, the process is handed
  exactly one message (the message of the \<open>Error\<close>, or \<open>Unknown error\<close> for any
  other thrown value) and exits with code 1: nothing thrown is dropped or turned into a
  warning. When the action returns, the handler leaves the process as it was: no message
  and no exit, so a process that had not exited ends with code 0. \<open>runCodegen\<close> is
  \<open>codegen\<close> wrapped this way.
\<close>

theorem withErrorHandler_exit_code:
  "(action arg = Inl reason \<longrightarrow>
      error_messages (withErrorHandler action arg p)
        = error_messages p
          @ [case reason of ErrorObject message \<Rightarrow> message | OtherValue \<Rightarrow> ''Unknown error'']
      \<and> exited (withErrorHandler action arg p) = Some 1
      \<and> exit_code (withErrorHandler action arg p) = 1)
   \<and> (action arg = Inr () \<longrightarrow> withErrorHandler action arg p = p)
   \<and> (action arg = Inr () \<longrightarrow> exited p = None \<longrightarrow> exit_code (withErrorHandler action arg p) = 0)
   \<and> runCodegen codegen cwd
       = withErrorHandler (\<lambda>ow. codegen \<lparr>projectRoot = cwd, overwrite = ow\<rparr>)"
  by (auto simp add: withErrorHandler_def commonErrorHandler_def process_exit_def error_def
      exit_code_def runCodegen_def split: thrown.split)

theorem withErrorHandler_exit_code_witness:
  "runCodegen sample_codegen ''/app'' False \<lparr>error_messages = [], exited = None\<rparr>
     = \<lparr>error_messages = [''spec error: no module handle''], exited = Some 1\<rparr>
   \<and> runCodegen sample_codegen ''/'' True \<lparr>error_messages = [], exited = None\<rparr>
     = \<lparr>error_messages = [''Unknown error''], exited = Some 1\<rparr>
   \<and> runCodegen sample_codegen ''/app'' True \<lparr>error_messages = [], exited = None\<rparr>
     = \<lparr>error_messages = [], exited = None\<rparr>
   \<and> exit_code (runCodegen sample_codegen ''/app'' True \<lparr>error_messages = [], exited = None\<rparr>) = 0"
  using withErrorHandler_exit_code
      [of "\<lambda>ow. sample_codegen \<lparr>projectRoot = ''/app'', overwrite = ow\<rparr>" False
          "ErrorObject ''spec error: no module handle''" "\<lparr>error_messages = [], exited = None\<rparr>"
          sample_codegen "''/app''"]
    withErrorHandler_exit_code
      [of "\<lambda>ow. sample_codegen \<lparr>projectRoot = ''/'', overwrite = ow\<rparr>" True
          OtherValue "\<lparr>error_messages = [], exited = None\<rparr>" sample_codegen "''/''"]
    withErrorHandler_exit_code
      [of "\<lambda>ow. sample_codegen \<lparr>projectRoot = ''/app'', overwrite = ow\<rparr>" True
          OtherValue "\<lparr>error_messages = [], exited = None\<rparr>" sample_codegen "''/app''"]
  by (simp add: sample_codegen_def runCodegen_def withErrorHandler_def commonErrorHandler_def
      process_exit_def error_def exit_code_def)

section \<open>The cache of resolvers\<close>

lemma resolve_keeps: "rs k = Some r \<Longrightarrow> snd (resolve E opts ctx req pl rs) k = Some r"
  by (auto simp add: resolve_def Let_def split: option.split)

lemma resolve_calls_keeps: "rs k = Some r \<Longrightarrow> resolve_calls E cs rs k = Some r"
  by (induction cs arbitrary: rs) (simp_all add: resolve_keeps)

lemma resolve_other:
  "rs k = None \<Longrightarrow> pl \<noteq> k \<Longrightarrow> snd (resolve E opts ctx req pl rs) k = None"
  by (auto simp add: resolve_def Let_def split: option.split)

lemma resolve_creates:
  "rs k = None \<Longrightarrow>
     snd (resolve E opts ctx req k rs) k = Some (createResolverImpl E opts ctx k (rootPath opts))"
  by (auto simp add: resolve_def Let_def split: option.split)

lemma resolve_calls_entry:
  "resolve_calls E cs rs k =
     (case rs k of
        Some r \<Rightarrow> Some r
      | None \<Rightarrow>
          (case find (\<lambda>c. call_platform c = k) cs of
             None \<Rightarrow> None
           | Some c \<Rightarrow>
               Some (createResolverImpl E (call_options c) (call_context c) k
                       (rootPath (call_options c)))))"
proof (induction cs arbitrary: rs)
  case Nil
  then show ?case by (simp split: option.split)
next
  case (Cons c cs)
  show ?case
  proof (cases "rs k")
    case (Some r)
    then show ?thesis
      using resolve_calls_keeps [of rs k r E "c # cs"] by simp
  next
    case None
    show ?thesis
    proof (cases "call_platform c = k")
      case True
      then show ?thesis
        using None resolve_creates [of rs k E "call_options c" "call_context c" "call_request c"]
          resolve_calls_keeps
        by simp
    next
      case False
      then show ?thesis
        using None Cons.IH
          resolve_other [of rs k "call_platform c" E "call_options c" "call_context c"
            "call_request c"]
        by simp
    qed
  qed
qed

lemma resolve_answer:
  "resolve E opts ctx req k rs =
     (case rs k of
        Some r \<Rightarrow> (resolve_inner E r ctx req, rs)
      | None \<Rightarrow> (resolve_inner E (createResolverImpl E opts ctx k (rootPath opts)) ctx req,
                 rs(k \<mapsto> createResolverImpl E opts ctx k (rootPath opts))))"
  by (simp add: resolve_def Let_def split: option.split)

lemma resolve_loop_origin:
  "originModulePath c1 = originModulePath c2 \<Longrightarrow>
     resolve_loop E cl c1 req xs = resolve_loop E cl c2 req xs"
  by (induction xs) simp_all

lemmas resolver_evals =
  resolve_def createResolverImpl_def resolve_inner_def resolveSync_def source_file_def
  sample_env_def DEFAULT_SINGLETON_MODULES_def Let_def

text \<open>
  C6, as the claim states it, fails where it names the key: \<open>resolvers\<close> is keyed by the
  platform alone. Two resolver functions made by \<open>createResolver\<close> with different
  options (root paths \<open>/app\<close> and \<open>/lib\<close>) are called for the platform \<open>ios\<close>:
  the second call creates no entry of its own, the entry for \<open>ios\<close> stays the resolver
  built for the first function, and that is not the resolver the second function would
  build.
\<close>

theorem resolvers_not_keyed_by_function:
  "resolve_calls sample_env
     [\<lparr>call_options = \<lparr>rootPath = ''/app'', singletonModules = None\<rparr>,
       call_context = \<lparr>sourceExts = [''ts''], originModulePath = ''/app/src/index.ts'',
                       preferNativePlatform = None\<rparr>,
       call_request = ''util'', call_platform = Some ''ios''\<rparr>,
      \<lparr>call_options = \<lparr>rootPath = ''/lib'', singletonModules = None\<rparr>,
       call_context = \<lparr>sourceExts = [''ts''], originModulePath = ''/app/src/index.ts'',
                       preferNativePlatform = None\<rparr>,
       call_request = ''util'', call_platform = Some ''ios''\<rparr>]
     Map.empty (Some ''ios'')
   = Some (createResolverImpl sample_env \<lparr>rootPath = ''/app'', singletonModules = None\<rparr>
       \<lparr>sourceExts = [''ts''], originModulePath = ''/app/src/index.ts'',
        preferNativePlatform = None\<rparr> (Some ''ios'') ''/app'')
   \<and> createResolverImpl sample_env \<lparr>rootPath = ''/app'', singletonModules = None\<rparr>
       \<lparr>sourceExts = [''ts''], originModulePath = ''/app/src/index.ts'',
        preferNativePlatform = None\<rparr> (Some ''ios'') ''/app''
     \<noteq> createResolverImpl sample_env \<lparr>rootPath = ''/lib'', singletonModules = None\<rparr>
       \<lparr>sourceExts = [''ts''], originModulePath = ''/app/src/index.ts'',
        preferNativePlatform = None\<rparr> (Some ''ios'') ''/lib''"
  by (simp add: resolve_def createResolverImpl_def Let_def sample_env_def)

text \<open>
  C6, amended. The state shared by all calls is the one map \<open>resolvers\<close>, keyed by the
  platform alone; the value of an entry is the resolver function built for that platform.
  After any sequence of calls, from any state: an entry that was there is still there,
  unchanged; a platform that had no entry has one exactly when a call named that platform,
  and then it is the resolver built by the first such call, from that call's context and
  the options of the function called. A call that follows is answered by that very entry
  (the one there at the start, or the one the first call for its platform built), through
  whichever resolver function it is made and whatever its own context's extensions are, and
  it leaves the map as it is; only when its platform has no entry yet does it build one,
  answer with it and add it. No entry is changed or removed.
\<close>

theorem resolvers_lazy_and_kept:
  "resolve_calls E cs rs k =
     (case rs k of
        Some r \<Rightarrow> Some r
      | None \<Rightarrow>
          (case find (\<lambda>c. call_platform c = k) cs of
             None \<Rightarrow> None
           | Some c \<Rightarrow>
               Some (createResolverImpl E (call_options c) (call_context c) k
                       (rootPath (call_options c)))))
   \<and> fst (resolve E opts ctx req k (resolve_calls E cs rs)) =
       resolve_inner E
         (case rs k of
            Some r \<Rightarrow> r
          | None \<Rightarrow>
              (case find (\<lambda>c. call_platform c = k) cs of
                 None \<Rightarrow> createResolverImpl E opts ctx k (rootPath opts)
               | Some c \<Rightarrow>
                   createResolverImpl E (call_options c) (call_context c) k
                     (rootPath (call_options c))))
         ctx req
   \<and> snd (resolve E opts ctx req k (resolve_calls E cs rs)) =
       (case resolve_calls E cs rs k of
          Some r \<Rightarrow> resolve_calls E cs rs
        | None \<Rightarrow>
            (resolve_calls E cs rs)(k \<mapsto> createResolverImpl E opts ctx k (rootPath opts)))"
  using resolve_calls_entry [of E cs rs k]
  by (simp add: resolve_answer split: option.split)

theorem resolvers_lazy_and_kept_witness:
  "(let optsA = \<lparr>rootPath = ''/app'', singletonModules = None\<rparr>;
        optsB = \<lparr>rootPath = ''/lib'', singletonModules = None\<rparr>;
        c0 = \<lparr>sourceExts = [''ts'', ''js''], originModulePath = ''/app/src/index.ts'',
              preferNativePlatform = None\<rparr>;
        c1 = \<lparr>sourceExts = [''ts''], originModulePath = ''/app/src/index.ts'',
              preferNativePlatform = None\<rparr>;
        rs1 = resolve_calls sample_env
                [\<lparr>call_options = optsA, call_context = c0, call_request = ''react'',
                  call_platform = Some ''ios''\<rparr>] Map.empty
    in fst (resolve sample_env optsB c1 ''util'' (Some ''ios'') rs1)
         = Inr (SourceFile ''/app/src/util.ios.js'')
       \<and> fst (resolve sample_env optsB c1 ''util'' (Some ''ios'') Map.empty)
         = Inr (SourceFile ''/app/src/util.ts'')
       \<and> snd (resolve sample_env optsB c1 ''util'' (Some ''ios'') rs1) = rs1
       \<and> rs1 (Some ''android'') = None)"
  using resolvers_lazy_and_kept [of sample_env
      "[\<lparr>call_options = \<lparr>rootPath = ''/app'', singletonModules = None\<rparr>,
         call_context = \<lparr>sourceExts = [''ts'', ''js''], originModulePath = ''/app/src/index.ts'',
              preferNativePlatform = None\<rparr>, call_request = ''react'',
         call_platform = Some ''ios''\<rparr>]" Map.empty "Some ''ios''"
      "\<lparr>rootPath = ''/lib'', singletonModules = None\<rparr>"
      "\<lparr>sourceExts = [''ts''], originModulePath = ''/app/src/index.ts'',
              preferNativePlatform = None\<rparr>" "''util''"]
  by (simp add: resolver_evals)

section \<open>A cached resolver ignores the later context's extensions\<close>

text \<open>
  C10. After a first call for a platform, the entry of that platform is there; when the
  first call created it, it is the resolver built from the first call's context. Two later
  calls for the same platform and request whose contexts agree on \<open>originModulePath\<close>
  return the same result, whatever their \<open>sourceExts\<close> and
  \<open>preferNativePlatform\<close> are, and leave the cache as it is.
\<close>

theorem cached_resolver_ignores_later_extensions:
  assumes "originModulePath c1 = originModulePath c2"
  shows "(let rs1 = snd (resolve E opts0 c0 req0 pl rs) in
          rs1 pl \<noteq> None
          \<and> (rs pl = None \<longrightarrow>
               rs1 pl = Some (createResolverImpl E opts0 c0 pl (rootPath opts0)))
          \<and> fst (resolve E opts1 c1 req pl rs1) = fst (resolve E opts2 c2 req pl rs1)
          \<and> snd (resolve E opts1 c1 req pl rs1) = rs1)"
  using assms resolve_loop_origin [OF assms]
  by (auto simp add: resolve_def Let_def resolve_inner_def split: option.split)

theorem cached_resolver_ignores_later_extensions_witness:
  "(let opts = \<lparr>rootPath = ''/app'', singletonModules = None\<rparr>;
        c0 = \<lparr>sourceExts = [''ts'', ''js''], originModulePath = ''/app/src/index.ts'',
              preferNativePlatform = None\<rparr>;
        c1 = \<lparr>sourceExts = [''js''], originModulePath = ''/app/src/index.ts'',
              preferNativePlatform = None\<rparr>;
        c2 = \<lparr>sourceExts = [''ts''], originModulePath = ''/app/src/index.ts'',
              preferNativePlatform = Some True\<rparr>;
        rs1 = snd (resolve sample_env opts c0 ''react'' (Some ''ios'') Map.empty)
    in originModulePath c1 = originModulePath c2
       \<and> fst (resolve sample_env opts c1 ''util'' (Some ''ios'') rs1)
           = Inr (SourceFile ''/app/src/util.ios.js'')
       \<and> fst (resolve sample_env opts c2 ''util'' (Some ''ios'') rs1)
           = Inr (SourceFile ''/app/src/util.ios.js'')
       \<and> fst (resolve sample_env opts c2 ''util'' (Some ''ios'') Map.empty)
           = Inr (SourceFile ''/app/src/util.ts''))"
  using cached_resolver_ignores_later_extensions
      [of "\<lparr>sourceExts = [''js''], originModulePath = ''/app/src/index.ts'',
            preferNativePlatform = None\<rparr>"
          "\<lparr>sourceExts = [''ts''], originModulePath = ''/app/src/index.ts'',
            preferNativePlatform = Some True\<rparr>"
          sample_env "\<lparr>rootPath = ''/app'', singletonModules = None\<rparr>"
          "\<lparr>sourceExts = [''ts'', ''js''], originModulePath = ''/app/src/index.ts'',
            preferNativePlatform = None\<rparr>"
          "''react''" "Some ''ios''" Map.empty
          "\<lparr>rootPath = ''/app'', singletonModules = None\<rparr>" "''util''"
          "\<lparr>rootPath = ''/app'', singletonModules = None\<rparr>"]
  by (simp add: resolver_evals)

section \<open>The default targets\<close>

text \<open>
  C7. The default target set has exactly two platform families: iOS with exactly the two
  triples \<open>aarch64-apple-ios\<close> and \<open>aarch64-apple-ios-sim\<close>, and Android with
  exactly the four triples \<open>aarch64-linux-android\<close>, \<open>armv7-linux-androideabi\<close>,
  \<open>i686-linux-android\<close> and \<open>x86_64-linux-android\<close>.
\<close>

theorem default_build_targets_families:
  "map fst default_build_targets = [IOS, Android]
   \<and> map (length \<circ> snd) default_build_targets = [2, 4]
   \<and> distinct (concat (map snd default_build_targets))
   \<and> map_of default_build_targets IOS = Some [''aarch64-apple-ios'', ''aarch64-apple-ios-sim'']
   \<and> map_of default_build_targets Android
       = Some [''aarch64-linux-android'', ''armv7-linux-androideabi'', ''i686-linux-android'',
               ''x86_64-linux-android'']"
  by (simp add: default_build_targets_def)

section \<open>The generated method for \<open>getUserName\<close>\<close>

text \<open>
  C8. For the spec method \<open>getUserName(userId: number): string\<close> the generated method is
  called \<open>get_user_name\<close>, its parameter \<open>user_id\<close>, and its return type is the
  target's text-string type.
\<close>

theorem getUserName_generated:
  "generate_method
     \<lparr>method_name = ''getUserName'', method_params = [(''userId'', NumberKind)],
      method_return = StringKind\<rparr>
   = \<lparr>fn_name = ''get_user_name'', fn_params = [(''user_id'', RustNumber)],
      fn_return = RustString\<rparr>
   \<and> split_words ''getUserName'' = [''get'', ''User'', ''Name'']
   \<and> split_words ''userId'' = [''user'', ''Id'']"
  by (simp add: generate_method_def toSnake_def boundary_def is_lower_def is_upper_def
      is_digit_def to_lower_def upper_letters_def lower_letters_def)

section \<open>Code generation is the default command\<close>

lemma isCodegenCommand_options:
  "isCodegenCommand (exe # script # opts) = list_all (\<lambda>option. startsWith option ''-'') opts"
  by (simp add: isCodegenCommand_def slice_from_def)

text \<open>
  C9. When every argument after the executable and the script name begins with \<open>-\<close>
  (the empty argument list included), the entry point hands the parser the vector with the
  subcommand \<open>codegen\<close> put in front of those arguments.
\<close>

theorem run_defaults_to_codegen:
  assumes "\<forall>option \<in> set opts. startsWith option ''-''"
  shows "run parse (exe # script # opts)
           = parse (Str exe # Str script # Str ''codegen'' # map Str opts)"
  using assms
  by (simp add: run_def cli_argv_def isCodegenCommand_options list_all_iff index_js_def
      slice_from_def)

theorem run_defaults_to_codegen_witness:
  "run id [''node'', ''crabygen''] = [Str ''node'', Str ''crabygen'', Str ''codegen'']
   \<and> run id [''node'', ''crabygen'', ''--no-overwrite'']
       = [Str ''node'', Str ''crabygen'', Str ''codegen'', Str ''--no-overwrite'']
   \<and> run id [''node'', ''crabygen'', ''build''] = [Str ''node'', Str ''crabygen'', Str ''build'']"
  using run_defaults_to_codegen [of "[]" id "''node''" "''crabygen''"]
    run_defaults_to_codegen [of "[''--no-overwrite'']" id "''node''" "''crabygen''"]
  by (simp add: run_def cli_argv_def isCodegenCommand_def slice_from_def)

end
